theory Spec2Isabelle
  imports Main "HOL-Library.Word"
begin

section \<open>Document extraction core of the toll management API\<close>

text \<open>
  The development covers \<^verbatim>\<open>src/extractText.ts\<close> (functions \<^verbatim>\<open>fetchFileAsBase64\<close>,
  \<^verbatim>\<open>extractText\<close>, \<^verbatim>\<open>extractStructuredData\<close>) and the image-only copy of the same module
  (functions \<^verbatim>\<open>fetchImageAsBase64\<close>, \<^verbatim>\<open>extractText\<close>, \<^verbatim>\<open>extractStructuredData\<close>), whose
  definitions carry the suffix \<open>_dup\<close> where the names coincide.

  A JavaScript string is modelled as a \<^typ>\<open>string\<close> whose characters are the code units
  \<open>0..255\<close>. A rejected promise or a thrown exception is the left injection of a sum.
  What \<^verbatim>\<open>console.error\<close> prints is not modelled.
\<close>

subsection \<open>Platform: file system, HTTPS, model client, JSON\<close>

type_synonym byte = "8 word"

datatype error = Error string

datatype 'n json =
    JNull
  | JBool bool
  | JNumber 'n
  | JString string
  | JArray "'n json list"
  | JObject "(string \<times> 'n json) list"

text \<open>The reply of the model: \<^verbatim>\<open>content\<close> is a list of blocks, each tagged by \<^verbatim>\<open>type\<close>.\<close>

datatype content_block =
    TextBlock string
  | ThinkingBlock string
  | RedactedThinkingBlock string
  | ToolUseBlock string string

fun block_type :: "content_block \<Rightarrow> string" where
  "block_type (TextBlock t) = ''text''"
| "block_type (ThinkingBlock t) = ''thinking''"
| "block_type (RedactedThinkingBlock d) = ''redacted_thinking''"
| "block_type (ToolUseBlock i n) = ''tool_use''"

record message =
  content :: "content_block list"

text \<open>The request: one user message whose content is a list of blocks.\<close>

record base64_source =
  source_type :: string
  media_type :: string
  source_data :: string

datatype content_param =
    DocumentBlockParam base64_source
  | ImageBlockParam base64_source
  | TextBlockParam string

fun param_type :: "content_param \<Rightarrow> string" where
  "param_type (DocumentBlockParam s) = ''document''"
| "param_type (ImageBlockParam s) = ''image''"
| "param_type (TextBlockParam t) = ''text''"

record message_param =
  role :: string
  param_content :: "content_param list"

record request =
  model :: string
  max_tokens :: nat
  messages :: "message_param list"

record http_response =
  headers :: "string \<Rightarrow> string option"
  chunks :: "byte list list"

text \<open>
  The platform the module runs on. \<open>existsSync\<close> and \<open>readFileSync\<close> are Node's \<^verbatim>\<open>fs\<close>
  functions; \<open>https_get\<close> is the outcome of \<^verbatim>\<open>https.get\<close> once the response has ended
  (\<open>Inl\<close> when the request or the response emits \<^verbatim>\<open>error\<close>); \<open>messages_create\<close> is
  \<^verbatim>\<open>client.messages.create\<close>; \<open>JSON_parse\<close> is \<^verbatim>\<open>JSON.parse\<close>, whose numbers have the type
  \<open>'n\<close>.
\<close>

record 'n platform =
  existsSync :: "string \<Rightarrow> bool"
  readFileSync :: "string \<Rightarrow> error + byte list"
  https_get :: "string \<Rightarrow> error + http_response"
  messages_create :: "request \<Rightarrow> error + message"
  JSON_parse :: "string \<Rightarrow> error + 'n json"

subsection \<open>Library functions of JavaScript and Node\<close>

text \<open>\<^verbatim>\<open>Buffer.prototype.toString("base64")\<close>: RFC 4648 with padding.\<close>

definition base64_alphabet :: string where
  "base64_alphabet = ''ABCDEFGHIJKLMNOPQRSTUVWXYZabcdefghijklmnopqrstuvwxyz0123456789+/''"

definition base64_digit :: "nat \<Rightarrow> char" where
  "base64_digit n = base64_alphabet ! (n mod 64)"

fun toBase64 :: "byte list \<Rightarrow> string" where
  "toBase64 [] = []"
| "toBase64 [a] =
     [base64_digit (unat a div 4), base64_digit ((unat a mod 4) * 16), CHR ''='', CHR ''='']"
| "toBase64 [a, b] =
     [base64_digit (unat a div 4), base64_digit ((unat a mod 4) * 16 + unat b div 16),
      base64_digit ((unat b mod 16) * 4), CHR ''='']"
| "toBase64 (a # b # c # rest) =
     [base64_digit (unat a div 4), base64_digit ((unat a mod 4) * 16 + unat b div 16),
      base64_digit ((unat b mod 16) * 4 + unat c div 64), base64_digit (unat c mod 64)]
     @ toBase64 rest"

text \<open>
  \<^verbatim>\<open>path.extname\<close> (POSIX): the extension of the last component of the path, from its last
  dot; empty when the component has no dot, starts with its only dot, or is \<^verbatim>\<open>..\<close>.
  Trailing separators are ignored.
\<close>

definition extname :: "string \<Rightarrow> string" where
  "extname path =
     (let trimmed = rev (dropWhile (\<lambda>c. c = CHR ''/'') (rev path));
          base = rev (takeWhile (\<lambda>c. c \<noteq> CHR ''/'') (rev trimmed));
          ext = rev (takeWhile (\<lambda>c. c \<noteq> CHR ''.'') (rev base))
      in if CHR ''.'' \<notin> set base then []
         else if length ext + 1 = length base then []
         else if base = ''..'' then []
         else CHR ''.'' # ext)"

text \<open>
  \<^verbatim>\<open>String.prototype.toLowerCase\<close> on the code units \<open>0..255\<close>: the letters A to Z and the
  capital letters of Latin-1 (\<open>0xC0..0xDE\<close> without the multiplication sign).
\<close>

definition lower_char :: "char \<Rightarrow> char" where
  "lower_char c =
     (let n = (of_char c :: nat)
      in if (65 \<le> n \<and> n \<le> 90) \<or> (192 \<le> n \<and> n \<le> 222 \<and> n \<noteq> 215)
         then char_of (n + 32) else c)"

definition toLowerCase :: "string \<Rightarrow> string" where
  "toLowerCase s = map lower_char s"

text \<open>
  \<^verbatim>\<open>String.prototype.trim\<close>: white space and line terminators among the code units
  \<open>0..255\<close> are TAB, LF, VT, FF, CR, SP and NBSP.
\<close>

definition isWhiteSpace :: "char \<Rightarrow> bool" where
  "isWhiteSpace c = (c \<in> set [CHR 0x09, CHR 0x0A, CHR 0x0B, CHR 0x0C, CHR 0x0D, CHR 0x20, CHR 0xA0])"

definition trim :: "string \<Rightarrow> string" where
  "trim s = rev (dropWhile isWhiteSpace (rev (dropWhile isWhiteSpace s)))"

text \<open>\<^verbatim>\<open>s.split(";")[0]\<close>: the part of \<open>s\<close> before its first semicolon, all of \<open>s\<close> without one.\<close>

definition split_semicolon_0 :: "string \<Rightarrow> string" where
  "split_semicolon_0 s = takeWhile (\<lambda>c. c \<noteq> CHR '';'') s"

text \<open>
  \<^verbatim>\<open>s.match(/\{[\s\S]*\}/)\<close>, as the backtracking matcher runs it. \<open>match_star_brace\<close>
  is the tail \<^verbatim>\<open>[\s\S]*\}\<close> of the pattern: the star first takes the next character
  and goes on; only when that fails does it stop and ask for a closing brace here.
  \<open>match_braces\<close> tries each start position from the left and yields the matched
  substring (element 0 of the match), \<open>None\<close> for \<^verbatim>\<open>null\<close>.
\<close>

fun match_star_brace :: "string \<Rightarrow> string option" where
  "match_star_brace [] = None"
| "match_star_brace (c # cs) =
     (case match_star_brace cs of
        Some m \<Rightarrow> Some (c # m)
      | None \<Rightarrow> if c = CHR ''}'' then Some [c] else None)"

fun match_braces :: "string \<Rightarrow> string option" where
  "match_braces [] = None"
| "match_braces (c # cs) =
     (case (if c = CHR ''{'' then match_star_brace cs else None) of
        Some m \<Rightarrow> Some (c # m)
      | None \<Rightarrow> match_braces cs)"

text \<open>\<^verbatim>\<open>Array.prototype.join\<close> on strings.\<close>

fun join :: "string \<Rightarrow> string list \<Rightarrow> string" where
  "join sep [] = []"
| "join sep [x] = x"
| "join sep (x # y # ys) = x @ sep @ join sep (y # ys)"

text \<open>
  Property lookup \<^verbatim>\<open>obj[key]\<close> on an object literal with string values: the own
  properties first, then the properties every object literal inherits from
  \<^verbatim>\<open>Object.prototype\<close> (built-in functions, and the accessor \<^verbatim>\<open>__proto__\<close> that yields the
  prototype object).
\<close>

datatype js_value = JSUndefined | JSString string | JSFunction string | JSObject

definition Object_prototype :: "string \<Rightarrow> js_value" where
  "Object_prototype key =
     (if key = ''constructor'' then JSFunction ''Object''
      else if key \<in> set [''__defineGetter__'', ''__defineSetter__'', ''hasOwnProperty'',
                          ''__lookupGetter__'', ''__lookupSetter__'', ''isPrototypeOf'',
                          ''propertyIsEnumerable'', ''toString'', ''valueOf'', ''toLocaleString'']
      then JSFunction key
      else if key = ''__proto__'' then JSObject
      else JSUndefined)"

definition get_property :: "(string \<times> string) list \<Rightarrow> string \<Rightarrow> js_value" where
  "get_property obj key =
     (case map_of obj key of Some v \<Rightarrow> JSString v | None \<Rightarrow> Object_prototype key)"

text \<open>Truthiness, the operator \<^verbatim>\<open>||\<close>, and the conversion to a string that \<^verbatim>\<open>join\<close> applies.\<close>

fun truthy :: "js_value \<Rightarrow> bool" where
  "truthy JSUndefined = False"
| "truthy (JSString s) = (s \<noteq> [])"
| "truthy (JSFunction f) = True"
| "truthy JSObject = True"

definition js_or :: "js_value \<Rightarrow> js_value \<Rightarrow> js_value" where
  "js_or a b = (if truthy a then a else b)"

fun ToString :: "js_value \<Rightarrow> string" where
  "ToString JSUndefined = []"
| "ToString (JSString s) = s"
| "ToString (JSFunction f) = ''function '' @ f @ ''() { [native code] }''"
| "ToString JSObject = ''[object Object]''"

subsection \<open>The fetchers\<close>

record resource =
  data :: string
  mediaType :: string

text \<open>\<^verbatim>\<open>response.headers["content-type"] || "image/jpeg"\<close>, then \<^verbatim>\<open>.split(";")[0]\<close>.\<close>

definition remote_mediaType :: "http_response \<Rightarrow> string" where
  "remote_mediaType response =
     (let contentType =
        (case headers response ''content-type'' of
           None \<Rightarrow> ''image/jpeg''
         | Some v \<Rightarrow> if v = [] then ''image/jpeg'' else v)
      in split_semicolon_0 contentType)"

text \<open>\<^verbatim>\<open>fetchFileAsBase64\<close> of \<^verbatim>\<open>src/extractText.ts\<close>.\<close>

definition fetchFileAsBase64 :: "'n platform \<Rightarrow> string \<Rightarrow> error + resource" where
  "fetchFileAsBase64 P filePath =
     (if existsSync P filePath then
        (case readFileSync P filePath of
           Inl e \<Rightarrow> Inl e
         | Inr fileBuffer \<Rightarrow>
             (let base64 = toBase64 fileBuffer;
                  ext = toLowerCase (extname filePath);
                  mediaType =
                    (if ext = ''.pdf'' then ''application/pdf''
                     else if ext = ''.png'' then ''image/png''
                     else if ext = ''.gif'' then ''image/gif''
                     else if ext = ''.webp'' then ''image/webp''
                     else ''image/jpeg'')
              in Inr \<lparr>data = base64, mediaType = mediaType\<rparr>))
      else
        (case https_get P filePath of
           Inl e \<Rightarrow> Inl e
         | Inr response \<Rightarrow>
             (let buffer = concat (chunks response)
              in Inr \<lparr>data = toBase64 buffer, mediaType = remote_mediaType response\<rparr>)))"

text \<open>\<^verbatim>\<open>fetchImageAsBase64\<close> of the image-only copy: the same, without the case for \<^verbatim>\<open>.pdf\<close>.\<close>

definition fetchImageAsBase64 :: "'n platform \<Rightarrow> string \<Rightarrow> error + resource" where
  "fetchImageAsBase64 P imagePath =
     (if existsSync P imagePath then
        (case readFileSync P imagePath of
           Inl e \<Rightarrow> Inl e
         | Inr imageBuffer \<Rightarrow>
             (let base64 = toBase64 imageBuffer;
                  ext = toLowerCase (extname imagePath);
                  mediaType =
                    (if ext = ''.png'' then ''image/png''
                     else if ext = ''.gif'' then ''image/gif''
                     else if ext = ''.webp'' then ''image/webp''
                     else ''image/jpeg'')
              in Inr \<lparr>data = base64, mediaType = mediaType\<rparr>))
      else
        (case https_get P imagePath of
           Inl e \<Rightarrow> Inl e
         | Inr response \<Rightarrow>
             (let buffer = concat (chunks response)
              in Inr \<lparr>data = toBase64 buffer, mediaType = remote_mediaType response\<rparr>)))"

subsection \<open>Requests\<close>

text \<open>
  The first block pushed onto \<^verbatim>\<open>messageContent\<close> in \<^verbatim>\<open>src/extractText.ts\<close> (the same code in
  \<^verbatim>\<open>extractText\<close> and in \<^verbatim>\<open>extractStructuredData\<close>).
\<close>

definition media_block :: "resource \<Rightarrow> content_param" where
  "media_block r =
     (if mediaType r = ''application/pdf''
      then DocumentBlockParam
             \<lparr>source_type = ''base64'', media_type = mediaType r, source_data = data r\<rparr>
      else ImageBlockParam
             \<lparr>source_type = ''base64'', media_type = mediaType r, source_data = data r\<rparr>)"

definition extractText_request :: "resource \<Rightarrow> request" where
  "extractText_request r =
     (let messageContent =
        [media_block r,
         TextBlockParam
           ''Please extract all text from this document and return it in markdown format.'']
      in \<lparr>model = ''claude-opus-4-1-20250805'', max_tokens = 1024,
          messages = [\<lparr>role = ''user'', param_content = messageContent\<rparr>]\<rparr>)"

definition extractText_request_dup :: "resource \<Rightarrow> request" where
  "extractText_request_dup r =
     \<lparr>model = ''claude-opus-4-1-20250805'', max_tokens = 1024,
      messages =
        [\<lparr>role = ''user'',
          param_content =
            [ImageBlockParam
               \<lparr>source_type = ''base64'', media_type = mediaType r, source_data = data r\<rparr>,
             TextBlockParam
               ''Please extract all text from this image and return it in markdown format.'']\<rparr>]\<rparr>"

text \<open>The table of field descriptions and the callback of \<^verbatim>\<open>fields.map\<close>.\<close>

definition descriptions :: "(string \<times> string) list" where
  "descriptions =
     [(''invoiceNumber'', ''Invoice number or ID''),
      (''licensePlate'', ''License plate number or vehicle registration''),
      (''amountDue'', ''Amount due (total amount to pay)''),
      (''dueDate'', ''Due date for payment''),
      (''company'', ''Company or organization name''),
      (''address'', ''Address'')]"

definition describe :: "string \<Rightarrow> js_value" where
  "describe field = js_or (get_property descriptions field) (JSString field)"

definition fieldsDescription :: "string list \<Rightarrow> string" where
  "fieldsDescription fieldNames = join '', '' (map (\<lambda>field. ToString (describe field)) fieldNames)"

definition example_shape :: string where
  \<open>example_shape =
     ''{\<newline>  "invoiceNumber": "value",\<newline>  "licensePlate": "value",\<newline>  "amountDue": "value",\<newline>  "dueDate": "value"\<newline>}''\<close>

definition structured_prompt :: "string \<Rightarrow> string \<Rightarrow> string" where
  "structured_prompt noun described =
     ''Extract the following information from this '' @ noun
     @ '' and return ONLY a JSON object (no markdown, no extra text): '' @ described
     @ ''.\<newline>\<newline>Return as JSON like this example:\<newline>'' @ example_shape
     @ ''\<newline>\<newline>If a field is not found, use null.''"

definition extractStructuredData_request :: "resource \<Rightarrow> string list \<Rightarrow> request" where
  "extractStructuredData_request r fieldNames =
     (let messageContent =
        [media_block r,
         TextBlockParam (structured_prompt ''document'' (fieldsDescription fieldNames))]
      in \<lparr>model = ''claude-opus-4-1-20250805'', max_tokens = 500,
          messages = [\<lparr>role = ''user'', param_content = messageContent\<rparr>]\<rparr>)"

definition extractStructuredData_request_dup :: "resource \<Rightarrow> string list \<Rightarrow> request" where
  "extractStructuredData_request_dup r fieldNames =
     \<lparr>model = ''claude-opus-4-1-20250805'', max_tokens = 500,
      messages =
        [\<lparr>role = ''user'',
          param_content =
            [ImageBlockParam
               \<lparr>source_type = ''base64'', media_type = mediaType r, source_data = data r\<rparr>,
             TextBlockParam (structured_prompt ''image'' (fieldsDescription fieldNames))]\<rparr>]\<rparr>"

subsection \<open>Reading the reply\<close>

text \<open>
  \<^verbatim>\<open>response.content.find((block) => block.type === "text")\<close> and what
  \<^verbatim>\<open>extractText\<close> returns from it.
\<close>

definition find_text :: "message \<Rightarrow> content_block option" where
  "find_text response = find (\<lambda>block. block_type block = ''text'') (content response)"

definition reply_text :: "message \<Rightarrow> string" where
  "reply_text response =
     (case find_text response of
        Some (TextBlock t) \<Rightarrow> t
      | _ \<Rightarrow> [])"

text \<open>
  The \<^verbatim>\<open>try\<close> block of \<^verbatim>\<open>extractStructuredData\<close>: whatever is thrown inside is caught,
  and the function then returns the empty object.
\<close>

definition recover_json :: "'n platform \<Rightarrow> string \<Rightarrow> 'n json" where
  "recover_json P text =
     (let jsonText = trim text
      in case match_braces jsonText of
           Some jsonMatch \<Rightarrow>
             (case JSON_parse P jsonMatch of
                Inr parsed \<Rightarrow> parsed
              | Inl e \<Rightarrow> JObject [])
         | None \<Rightarrow> JObject [])"

definition reply_json :: "'n platform \<Rightarrow> message \<Rightarrow> 'n json" where
  "reply_json P response =
     (case find_text response of
        Some (TextBlock t) \<Rightarrow> recover_json P t
      | _ \<Rightarrow> JObject [])"

subsection \<open>The two public operations, in both copies\<close>

definition extractText :: "'n platform \<Rightarrow> string \<Rightarrow> error + string" where
  "extractText P filePath =
     (case fetchFileAsBase64 P filePath of
        Inl e \<Rightarrow> Inl e
      | Inr r \<Rightarrow>
          (case messages_create P (extractText_request r) of
             Inl e \<Rightarrow> Inl e
           | Inr response \<Rightarrow> Inr (reply_text response)))"

definition extractStructuredData :: "'n platform \<Rightarrow> string \<Rightarrow> string list \<Rightarrow> error + 'n json" where
  "extractStructuredData P filePath fieldNames =
     (case fetchFileAsBase64 P filePath of
        Inl e \<Rightarrow> Inl e
      | Inr r \<Rightarrow>
          (case messages_create P (extractStructuredData_request r fieldNames) of
             Inl e \<Rightarrow> Inl e
           | Inr response \<Rightarrow> Inr (reply_json P response)))"

definition extractText_dup :: "'n platform \<Rightarrow> string \<Rightarrow> error + string" where
  "extractText_dup P imagePath =
     (case fetchImageAsBase64 P imagePath of
        Inl e \<Rightarrow> Inl e
      | Inr r \<Rightarrow>
          (case messages_create P (extractText_request_dup r) of
             Inl e \<Rightarrow> Inl e
           | Inr response \<Rightarrow> Inr (reply_text response)))"

definition extractStructuredData_dup :: "'n platform \<Rightarrow> string \<Rightarrow> string list \<Rightarrow> error + 'n json" where
  "extractStructuredData_dup P imagePath fieldNames =
     (case fetchImageAsBase64 P imagePath of
        Inl e \<Rightarrow> Inl e
      | Inr r \<Rightarrow>
          (case messages_create P (extractStructuredData_request_dup r fieldNames) of
             Inl e \<Rightarrow> Inl e
           | Inr response \<Rightarrow> Inr (reply_json P response)))"

text \<open>The parameter \<^verbatim>\<open>fields\<close> is called \<open>fieldNames\<close> here; this is its default.\<close>

definition default_fields :: "string list" where
  "default_fields = [''invoiceNumber'', ''licensePlate'', ''amountDue'', ''dueDate'']"

subsection \<open>Test doubles\<close>

text \<open>
  A platform for the worked examples. Its file system holds two readable files and a
  directory; two URLs answer; the model client returns a fixed outcome whatever the
  request, as a fake client does. \<open>demo_JSON_parse\<close> is \<^verbatim>\<open>JSON.parse\<close> on the texts the
  examples hand to it: two of them are JSON documents, the others are not.
\<close>

definition demo_JSON_parse :: "string \<Rightarrow> error + nat json" where
  \<open>demo_JSON_parse s =
     (if s = ''{"invoiceNumber":"INV-001","amountDue":"42.50"}''
      then Inr (JObject [(''invoiceNumber'', JString ''INV-001''), (''amountDue'', JString ''42.50'')])
      else if s = ''{}'' then Inr (JObject [])
      else Inl (Error ''SyntaxError''))\<close>

definition demo_response_pdf :: http_response where
  "demo_response_pdf =
     \<lparr>headers = map_of [(''content-type'', ''application/pdf; charset=binary'')],
      chunks = [[0x25, 0x50], [0x44]]\<rparr>"

definition demo_response_empty :: http_response where
  "demo_response_empty =
     \<lparr>headers = map_of [(''content-type'', [])], chunks = [[0x4D, 0x61, 0x6E]]\<rparr>"

definition demo :: "error + message \<Rightarrow> nat platform" where
  "demo reply =
     \<lparr>existsSync = (\<lambda>p. p \<in> set [''/tmp/scan.PDF'', ''photo'', ''/srv/uploads'']),
      readFileSync =
        (\<lambda>p. if p = ''/tmp/scan.PDF'' then Inr [0x25, 0x50, 0x44]
             else if p = ''photo'' then Inr [0xFF, 0xD8]
             else Inl (Error ''EISDIR'')),
      https_get =
        (\<lambda>u. if u = ''https://example.com/doc'' then Inr demo_response_pdf
             else if u = ''https://example.com/empty'' then Inr demo_response_empty
             else Inl (Error ''ENOTFOUND'')),
      messages_create = (\<lambda>req. reply),
      JSON_parse = demo_JSON_parse\<rparr>"

definition example_reply_text :: string where
  \<open>example_reply_text =
     ''Here is the result:\<newline>```json\<newline>{"invoiceNumber":"INV-001","amountDue":"42.50"}\<newline>```\<newline>Let me know if you need more.''\<close>

definition two_fragments :: string where
  \<open>two_fragments = ''{"invoiceNumber":"INV-001"} and {"amountDue":"42.50"}''\<close>

section \<open>Properties\<close>

subsection \<open>Auxiliary facts\<close>

text \<open>The examples of the Node documentation for \<^verbatim>\<open>path.extname\<close>, and two paths with dots only.\<close>

lemma extname_documented:
  "extname ''index.html'' = ''.html''"
  "extname ''index.coffee.md'' = ''.md''"
  "extname ''index.'' = ''.''"
  "extname ''index'' = []"
  "extname ''.index'' = []"
  "extname ''.index.md'' = ''.md''"
  "extname ''..'' = []"
  "extname ''/srv/uploads.d/scan'' = []"
  by (simp_all add: extname_def)

text \<open>The test vectors of RFC 4648 for the strings f, fo, foo and foob.\<close>

lemma toBase64_rfc4648:
  "toBase64 [0x66] = ''Zg==''"
  "toBase64 [0x66, 0x6F] = ''Zm8=''"
  "toBase64 [0x66, 0x6F, 0x6F] = ''Zm9v''"
  "toBase64 [0x66, 0x6F, 0x6F, 0x62] = ''Zm9vYg==''"
  by (simp_all add: base64_digit_def base64_alphabet_def)

lemma match_star_brace_None: "CHR ''}'' \<notin> set s \<Longrightarrow> match_star_brace s = None"
  by (induction s) auto

lemma match_star_brace_last:
  "CHR ''}'' \<notin> set b \<Longrightarrow> match_star_brace (m @ CHR ''}'' # b) = Some (m @ ''}'')"
  by (induction m) (simp_all add: match_star_brace_None)

lemma match_star_brace_Some: "CHR ''}'' \<in> set s \<Longrightarrow> match_star_brace s \<noteq> None"
  by (induction s) (auto split: option.splits)

lemma match_braces_skip: "CHR ''{'' \<notin> set a \<Longrightarrow> match_braces (a @ s) = match_braces s"
  by (induction a) auto

lemma match_braces_span:
  assumes "CHR ''{'' \<notin> set a" and "CHR ''}'' \<notin> set b"
  shows "match_braces (a @ CHR ''{'' # m @ CHR ''}'' # b) = Some (CHR ''{'' # m @ ''}'')"
  using assms by (simp add: match_braces_skip match_star_brace_last)

lemma match_braces_exists:
  "CHR ''}'' \<in> set rest \<Longrightarrow> match_braces (a @ CHR ''{'' # rest) \<noteq> None"
  by (induction a) (auto simp: match_star_brace_Some split: option.splits)

lemma trim_pad:
  assumes "\<forall>c\<in>set w1. isWhiteSpace c" and "\<forall>c\<in>set w2. isWhiteSpace c"
  shows "trim (w1 @ s @ w2) = trim s"
proof -
  have l: "dropWhile isWhiteSpace (w1 @ s @ w2) = dropWhile isWhiteSpace (s @ w2)"
    using assms(1) by simp
  show ?thesis
  proof (cases "\<forall>c\<in>set s. isWhiteSpace c")
    case True
    then have a: "dropWhile isWhiteSpace (s @ w2) = []" and b: "dropWhile isWhiteSpace s = []"
      using assms(2) by auto
    show ?thesis
      unfolding trim_def l a b by simp
  next
    case False
    then have a: "dropWhile isWhiteSpace (s @ w2) = dropWhile isWhiteSpace s @ w2"
      by (auto simp: dropWhile_append1)
    have c: "dropWhile isWhiteSpace (rev w2 @ x) = dropWhile isWhiteSpace x" for x
      using assms(2) by (intro dropWhile_append2) simp
    show ?thesis
      unfolding trim_def l a by (simp add: c)
  qed
qed

lemma trim_infix: "\<exists>w1 w2. t = w1 @ trim t @ w2"
proof -
  let ?d = "dropWhile isWhiteSpace t"
  have "t = takeWhile isWhiteSpace t @ ?d" by simp
  moreover have "rev ?d = takeWhile isWhiteSpace (rev ?d) @ dropWhile isWhiteSpace (rev ?d)"
    by simp
  then have "?d = trim t @ rev (takeWhile isWhiteSpace (rev ?d))"
    unfolding trim_def by (metis rev_append rev_rev_ident)
  ultimately show ?thesis by metis
qed

lemma find_first:
  "\<forall>b\<in>set pre. \<not> Q b \<Longrightarrow> find Q (pre @ x # post) = (if Q x then Some x else find Q post)"
  by (induction pre) auto

lemma find_append_split:
  "find Q (pre @ rest) = (case find Q pre of Some y \<Rightarrow> Some y | None \<Rightarrow> find Q rest)"
  by (induction pre) auto

lemma find_text_none:
  "\<forall>b\<in>set (content response). block_type b \<noteq> ''text'' \<Longrightarrow> find_text response = None"
  by (simp add: find_text_def find_None_iff)

lemma find_text_first:
  "content response = pre @ TextBlock t # post \<Longrightarrow> \<forall>b\<in>set pre. block_type b \<noteq> ''text'' \<Longrightarrow>
   find_text response = Some (TextBlock t)"
  by (simp add: find_text_def find_first)

lemma demo_fetch_photo:
  "fetchFileAsBase64 (demo reply) ''photo'' = Inr \<lparr>data = ''/9g='', mediaType = ''image/jpeg''\<rparr>"
  by (simp add: fetchFileAsBase64_def demo_def extname_def toLowerCase_def base64_digit_def
      base64_alphabet_def)

lemma demo_messages_create: "messages_create (demo reply) req = reply"
  by (simp add: demo_def)

lemma match_star_brace_decomp:
  "match_star_brace s = Some x \<Longrightarrow> \<exists>m b. s = m @ CHR ''}'' # b \<and> x = m @ ''}''"
proof (induction s arbitrary: x)
  case Nil
  then show ?case by simp
next
  case (Cons c cs)
  show ?case
  proof (cases "match_star_brace cs")
    case None
    with Cons.prems have "c = CHR ''}''" and "x = [c]"
      by (auto split: if_splits)
    then have "c # cs = [] @ CHR ''}'' # cs \<and> x = [] @ ''}''" by simp
    then show ?thesis by blast
  next
    case (Some y)
    with Cons.prems have x: "x = c # y" by simp
    from Cons.IH [OF Some] obtain m b where "cs = m @ CHR ''}'' # b" and "y = m @ ''}''"
      by blast
    with x have "c # cs = (c # m) @ CHR ''}'' # b \<and> x = (c # m) @ ''}''" by simp
    then show ?thesis by blast
  qed
qed

lemma match_braces_decomp:
  "match_braces s = Some x \<Longrightarrow>
   \<exists>a m b. s = a @ CHR ''{'' # m @ CHR ''}'' # b \<and> x = CHR ''{'' # m @ ''}''"
proof (induction s)
  case Nil
  then show ?case by simp
next
  case (Cons c cs)
  show ?case
  proof (cases "if c = CHR ''{'' then match_star_brace cs else None")
    case None
    with Cons.prems have "match_braces cs = Some x" by simp
    from Cons.IH [OF this] obtain a m b
      where "cs = a @ CHR ''{'' # m @ CHR ''}'' # b" and "x = CHR ''{'' # m @ ''}''"
      by blast
    then have "c # cs = (c # a) @ CHR ''{'' # m @ CHR ''}'' # b \<and> x = CHR ''{'' # m @ ''}''"
      by simp
    then show ?thesis by blast
  next
    case (Some y)
    then have c: "c = CHR ''{''" and y: "match_star_brace cs = Some y"
      by (auto split: if_splits)
    from Some Cons.prems have x: "x = c # y" by simp
    from match_star_brace_decomp [OF y] obtain m b
      where "cs = m @ CHR ''}'' # b" and "y = m @ ''}''"
      by blast
    with c x have "c # cs = [] @ CHR ''{'' # m @ CHR ''}'' # b \<and> x = CHR ''{'' # m @ ''}''"
      by simp
    then show ?thesis by blast
  qed
qed

lemma match_braces_trim_None:
  assumes "\<not> (\<exists>a m b. t = a @ CHR ''{'' # m @ CHR ''}'' # b)"
  shows "match_braces (trim t) = None"
proof (rule ccontr)
  assume "match_braces (trim t) \<noteq> None"
  then obtain x where "match_braces (trim t) = Some x" by blast
  from match_braces_decomp [OF this] obtain a m b
    where d: "trim t = a @ CHR ''{'' # m @ CHR ''}'' # b"
    by blast
  from trim_infix obtain w1 w2 where "t = w1 @ trim t @ w2" by blast
  with d have "t = (w1 @ a) @ CHR ''{'' # m @ CHR ''}'' # (b @ w2)" by simp
  with assms show False by blast
qed

lemma recover_json_span:
  assumes "trim text = a @ CHR ''{'' # m @ CHR ''}'' # b"
    and "CHR ''{'' \<notin> set a" and "CHR ''}'' \<notin> set b"
  shows "recover_json P text =
           (case JSON_parse P (CHR ''{'' # m @ ''}'') of Inr parsed \<Rightarrow> parsed | Inl e \<Rightarrow> JObject [])"
  using assms by (simp add: recover_json_def match_braces_span)

lemma reply_json_first:
  "content response = pre @ TextBlock t # post \<Longrightarrow> \<forall>b\<in>set pre. block_type b \<noteq> ''text'' \<Longrightarrow>
   reply_json P response = recover_json P t"
  by (simp add: reply_json_def find_text_first)

lemma extractStructuredData_reply:
  "fetchFileAsBase64 P filePath = Inr r \<Longrightarrow>
   messages_create P (extractStructuredData_request r fieldNames) = Inr response \<Longrightarrow>
   extractStructuredData P filePath fieldNames = Inr (reply_json P response)"
  by (simp add: extractStructuredData_def)

lemma no_brace_no_span:
  "CHR ''{'' \<notin> set t \<Longrightarrow> \<not> (\<exists>a m b. t = a @ CHR ''{'' # m @ CHR ''}'' # b)"
  by auto

lemma trim_example_reply_text:
  \<open>trim example_reply_text =
     ''Here is the result:\<newline>```json\<newline>'' @ CHR ''{'' # ''"invoiceNumber":"INV-001","amountDue":"42.50"''
     @ CHR ''}'' # ''\<newline>```\<newline>Let me know if you need more.''\<close>
  by (simp add: example_reply_text_def trim_def isWhiteSpace_def)

lemma trim_two_fragments:
  \<open>trim two_fragments = [] @ CHR ''{'' # ''"invoiceNumber":"INV-001"} and {"amountDue":"42.50"'' @ CHR ''}'' # []\<close>
  by (simp add: two_fragments_def trim_def isWhiteSpace_def)

lemma match_example_reply_text:
  \<open>match_braces (trim example_reply_text) = Some ''{"invoiceNumber":"INV-001","amountDue":"42.50"}''\<close>
  using match_braces_span [of "''Here is the result:\<newline>```json\<newline>''" "''\<newline>```\<newline>Let me know if you need more.''"]
  by (simp add: trim_example_reply_text)

lemma extname_scan: "extname ''/tmp/scan.PDF'' = ''.PDF''"
  by (simp add: extname_def)

lemma toLowerCase_PDF: "toLowerCase ''.PDF'' = ''.pdf''"
  by code_simp

lemma demo_fetch_scan:
  "fetchFileAsBase64 (demo reply) ''/tmp/scan.PDF''
   = Inr \<lparr>data = ''JVBE'', mediaType = ''application/pdf''\<rparr>"
  by (simp add: fetchFileAsBase64_def demo_def extname_scan toLowerCase_PDF base64_digit_def
      base64_alphabet_def)

lemma describe_known:
  "describe ''invoiceNumber'' = JSString ''Invoice number or ID''"
  "describe ''licensePlate'' = JSString ''License plate number or vehicle registration''"
  "describe ''amountDue'' = JSString ''Amount due (total amount to pay)''"
  "describe ''dueDate'' = JSString ''Due date for payment''"
  "describe ''company'' = JSString ''Company or organization name''"
  "describe ''address'' = JSString ''Address''"
  by (simp_all add: describe_def get_property_def descriptions_def js_or_def)

lemma describe_fallback:
  assumes "field \<notin> fst ` set descriptions" and "Object_prototype field = JSUndefined"
  shows "describe field = JSString field"
proof -
  from assms(1) have "map_of descriptions field = None"
    by (simp add: map_of_eq_None_iff)
  with assms(2) show ?thesis
    by (simp add: describe_def get_property_def js_or_def)
qed

lemma demo_fetch_scan_dup:
  "fetchImageAsBase64 (demo reply) ''/tmp/scan.PDF''
   = Inr \<lparr>data = ''JVBE'', mediaType = ''image/jpeg''\<rparr>"
  by (simp add: fetchImageAsBase64_def demo_def extname_scan toLowerCase_PDF base64_digit_def
      base64_alphabet_def)

lemma fetch_same_data:
  "map_sum id data (fetchFileAsBase64 P ident) = map_sum id data (fetchImageAsBase64 P ident)"
  by (simp add: fetchFileAsBase64_def fetchImageAsBase64_def Let_def split: sum.splits)

lemma fetch_same_unless_pdf:
  "\<not> (existsSync P ident \<and> toLowerCase (extname ident) = ''.pdf'') \<Longrightarrow>
   fetchFileAsBase64 P ident = fetchImageAsBase64 P ident"
  by (auto simp add: fetchFileAsBase64_def fetchImageAsBase64_def Let_def split: sum.splits)

lemma fetch_same_outcome:
  "(\<exists>e. fetchFileAsBase64 P ident = Inl e \<and> fetchImageAsBase64 P ident = Inl e)
   \<or> (\<exists>r r'. fetchFileAsBase64 P ident = Inr r \<and> fetchImageAsBase64 P ident = Inr r')"
  by (simp add: fetchFileAsBase64_def fetchImageAsBase64_def Let_def split: sum.splits)

subsection \<open>Plain-text extraction\<close>

text \<open>
  Claim C9. For every model reply, \<open>extractText\<close> returns the text of the first content
  block tagged \<^verbatim>\<open>text\<close>, scanning the blocks in order, and returns the empty string, not
  an error, when the reply has no such block.
\<close>

theorem extractText_first_text_block:
  assumes "fetchFileAsBase64 P filePath = Inr r"
    and "messages_create P (extractText_request r) = Inr response"
  shows "(\<forall>pre t post.
            content response = pre @ TextBlock t # post
            \<and> (\<forall>b\<in>set pre. block_type b \<noteq> ''text'')
            \<longrightarrow> extractText P filePath = Inr t)
         \<and> ((\<forall>b\<in>set (content response). block_type b \<noteq> ''text'')
            \<longrightarrow> extractText P filePath = Inr [])"
proof (intro conjI allI impI)
  fix pre t post
  assume "content response = pre @ TextBlock t # post
          \<and> (\<forall>b\<in>set pre. block_type b \<noteq> ''text'')"
  then have "find_text response = Some (TextBlock t)"
    by (simp add: find_text_first)
  then show "extractText P filePath = Inr t"
    using assms by (simp add: extractText_def reply_text_def)
next
  assume "\<forall>b\<in>set (content response). block_type b \<noteq> ''text''"
  then have "find_text response = None"
    by (rule find_text_none)
  then show "extractText P filePath = Inr []"
    using assms by (simp add: extractText_def reply_text_def)
qed

theorem extractText_first_text_block_witness:
  "extractText
     (demo (Inr \<lparr>content = [ThinkingBlock ''reading'', TextBlock ''TOLL INVOICE'',
                             TextBlock ''second'']\<rparr>)) ''photo'' = Inr ''TOLL INVOICE''
   \<and> extractText
       (demo (Inr \<lparr>content = [ThinkingBlock ''reading'', ToolUseBlock ''id'' ''ocr'']\<rparr>))
       ''photo'' = Inr []"
proof -
  let ?m1 = "\<lparr>content = [ThinkingBlock ''reading'', TextBlock ''TOLL INVOICE'',
                          TextBlock ''second'']\<rparr>"
  let ?m2 = "\<lparr>content = [ThinkingBlock ''reading'', ToolUseBlock ''id'' ''ocr'']\<rparr>"
  have "content ?m1 = [ThinkingBlock ''reading''] @ TextBlock ''TOLL INVOICE'' # [TextBlock ''second'']
        \<and> (\<forall>b\<in>set [ThinkingBlock ''reading'']. block_type b \<noteq> ''text'')"
    by simp
  with extractText_first_text_block [OF demo_fetch_photo demo_messages_create]
  have a: "extractText (demo (Inr ?m1)) ''photo'' = Inr ''TOLL INVOICE''"
    by blast
  have "\<forall>b\<in>set (content ?m2). block_type b \<noteq> ''text''"
    by simp
  with extractText_first_text_block [OF demo_fetch_photo demo_messages_create]
  have b: "extractText (demo (Inr ?m2)) ''photo'' = Inr []"
    by blast
  from a b show ?thesis by simp
qed

subsection \<open>Structured extraction degrades to the empty object\<close>

text \<open>
  Claim C4. Once the resource is fetched and the model has replied, structured
  extraction returns a value and never an error: the empty object when the reply has
  no text block, when the text of its first text block has no substring that starts
  with an opening brace and ends with a closing brace, and when \<^verbatim>\<open>JSON.parse\<close> rejects the
  span from the first opening brace to the last closing brace. Likewise text
  extraction returns the empty string when the reply has no text block.
\<close>

theorem extractStructuredData_degrades:
  assumes "fetchFileAsBase64 P filePath = Inr r"
    and "messages_create P (extractStructuredData_request r fieldNames) = Inr response"
  shows "(\<exists>v. extractStructuredData P filePath fieldNames = Inr v)
     \<and> ((\<forall>b\<in>set (content response). block_type b \<noteq> ''text'')
        \<longrightarrow> extractStructuredData P filePath fieldNames = Inr (JObject []))
     \<and> (\<forall>pre t post.
          content response = pre @ TextBlock t # post
          \<and> (\<forall>b\<in>set pre. block_type b \<noteq> ''text'')
          \<and> \<not> (\<exists>a m b. t = a @ CHR ''{'' # m @ CHR ''}'' # b)
          \<longrightarrow> extractStructuredData P filePath fieldNames = Inr (JObject []))
     \<and> (\<forall>pre t post a m b e.
          content response = pre @ TextBlock t # post
          \<and> (\<forall>b\<in>set pre. block_type b \<noteq> ''text'')
          \<and> trim t = a @ CHR ''{'' # m @ CHR ''}'' # b
          \<and> CHR ''{'' \<notin> set a \<and> CHR ''}'' \<notin> set b
          \<and> JSON_parse P (CHR ''{'' # m @ ''}'') = Inl e
          \<longrightarrow> extractStructuredData P filePath fieldNames = Inr (JObject []))
     \<and> (\<forall>response'.
          messages_create P (extractText_request r) = Inr response'
          \<and> (\<forall>b\<in>set (content response'). block_type b \<noteq> ''text'')
          \<longrightarrow> extractText P filePath = Inr [])"
proof -
  note e = extractStructuredData_reply [OF assms]
  have 1: "\<exists>v. extractStructuredData P filePath fieldNames = Inr v"
    using e by blast
  have 2: "extractStructuredData P filePath fieldNames = Inr (JObject [])"
    if "\<forall>b\<in>set (content response). block_type b \<noteq> ''text''"
    using e find_text_none [OF that] by (simp add: reply_json_def)
  have 3: "extractStructuredData P filePath fieldNames = Inr (JObject [])"
    if "content response = pre @ TextBlock t # post"
      and "\<forall>b\<in>set pre. block_type b \<noteq> ''text''"
      and "\<not> (\<exists>a m b. t = a @ CHR ''{'' # m @ CHR ''}'' # b)"
    for pre t post
    using e reply_json_first [OF that(1,2), of P] match_braces_trim_None [OF that(3)]
    by (simp add: recover_json_def)
  have 4: "extractStructuredData P filePath fieldNames = Inr (JObject [])"
    if "content response = pre @ TextBlock t # post"
      and "\<forall>b\<in>set pre. block_type b \<noteq> ''text''"
      and "trim t = a @ CHR ''{'' # m @ CHR ''}'' # b"
      and "CHR ''{'' \<notin> set a" and "CHR ''}'' \<notin> set b"
      and "JSON_parse P (CHR ''{'' # m @ ''}'') = Inl e"
    for pre t post a m b e
    using e reply_json_first [OF that(1,2), of P] recover_json_span [OF that(3,4,5), of P] that(6)
    by simp
  have 5: "extractText P filePath = Inr []"
    if "messages_create P (extractText_request r) = Inr response'"
      and "\<forall>b\<in>set (content response'). block_type b \<noteq> ''text''"
    for response'
    using assms(1) that(1) find_text_none [OF that(2)]
    by (simp add: extractText_def reply_text_def)
  from 1 2 3 4 5 show ?thesis by blast
qed


theorem extractStructuredData_degrades_witness:
  "extractStructuredData (demo (Inr \<lparr>content = [ToolUseBlock ''id'' ''ocr'']\<rparr>)) ''photo''
     default_fields = Inr (JObject [])
   \<and> extractStructuredData
       (demo (Inr \<lparr>content = [TextBlock ''I could not read this document.'']\<rparr>)) ''photo''
       default_fields = Inr (JObject [])
   \<and> extractStructuredData (demo (Inr \<lparr>content = [TextBlock two_fragments]\<rparr>)) ''photo''
       default_fields = Inr (JObject [])
   \<and> extractText (demo (Inr \<lparr>content = [ToolUseBlock ''id'' ''ocr'']\<rparr>)) ''photo'' = Inr []"
proof -
  let ?m1 = "\<lparr>content = [ToolUseBlock ''id'' ''ocr'']\<rparr>"
  let ?t2 = "''I could not read this document.''"
  let ?m2 = "\<lparr>content = [TextBlock ?t2]\<rparr>"
  let ?m3 = "\<lparr>content = [TextBlock two_fragments]\<rparr>"
  note T = extractStructuredData_degrades [OF demo_fetch_photo demo_messages_create]
  have h1: "\<forall>b\<in>set (content ?m1). block_type b \<noteq> ''text''"
    by simp
  from T [where response = ?m1 and fieldNames = default_fields] h1
  have a: "extractStructuredData (demo (Inr ?m1)) ''photo'' default_fields = Inr (JObject [])"
    by blast
  have "\<not> (\<exists>a m b. ?t2 = a @ CHR ''{'' # m @ CHR ''}'' # b)"
    by (rule no_brace_no_span) simp
  then have h2: "content ?m2 = [] @ TextBlock ?t2 # []
        \<and> (\<forall>b\<in>set []. block_type b \<noteq> ''text'')
        \<and> \<not> (\<exists>a m b. ?t2 = a @ CHR ''{'' # m @ CHR ''}'' # b)"
    by simp
  from T [where response = ?m2 and fieldNames = default_fields] h2
  have b: "extractStructuredData (demo (Inr ?m2)) ''photo'' default_fields = Inr (JObject [])"
    by blast
  let ?mid = \<open>''"invoiceNumber":"INV-001"} and {"amountDue":"42.50"''\<close>
  have h3: "content ?m3 = [] @ TextBlock two_fragments # []
        \<and> (\<forall>b\<in>set []. block_type b \<noteq> ''text'')
        \<and> trim two_fragments = [] @ CHR ''{'' # ?mid @ CHR ''}'' # []
        \<and> CHR ''{'' \<notin> set [] \<and> CHR ''}'' \<notin> set []
        \<and> JSON_parse (demo (Inr ?m3)) (CHR ''{'' # ?mid @ ''}'') = Inl (Error ''SyntaxError'')"
    by (simp add: two_fragments_def trim_def isWhiteSpace_def demo_def demo_JSON_parse_def)
  from T [where response = ?m3 and fieldNames = default_fields] h3
  have c: "extractStructuredData (demo (Inr ?m3)) ''photo'' default_fields = Inr (JObject [])"
    by blast
  have "messages_create (demo (Inr ?m1)) (extractText_request \<lparr>data = ''/9g='', mediaType = ''image/jpeg''\<rparr>) = Inr ?m1
        \<and> (\<forall>b\<in>set (content ?m1). block_type b \<noteq> ''text'')"
    by (simp add: demo_def)
  with T [where response = ?m1 and fieldNames = default_fields]
  have d: "extractText (demo (Inr ?m1)) ''photo'' = Inr []"
    by blast
  from a b c d show ?thesis by simp
qed

subsection \<open>White space around the reply text\<close>

text \<open>
  Claim C10. For every reply text \<open>s\<close> and all strings \<open>w1\<close> and \<open>w2\<close> of white space, the
  recovery yields for \<open>w1 @ s @ w2\<close> what it yields for \<open>s\<close>, on the text alone and on a
  reply that carries it: the text is trimmed before the braces are matched.
\<close>

theorem recovery_ignores_surrounding_whitespace:
  assumes "\<forall>c\<in>set w1. isWhiteSpace c" and "\<forall>c\<in>set w2. isWhiteSpace c"
  shows "recover_json P (w1 @ s @ w2) = recover_json P s
     \<and> reply_json P \<lparr>content = pre @ TextBlock (w1 @ s @ w2) # post\<rparr>
       = reply_json P \<lparr>content = pre @ TextBlock s # post\<rparr>"
proof -
  have r: "recover_json P (w1 @ s @ w2) = recover_json P s"
    unfolding recover_json_def trim_pad [OF assms] ..
  have "reply_json P \<lparr>content = pre @ TextBlock (w1 @ s @ w2) # post\<rparr>
        = reply_json P \<lparr>content = pre @ TextBlock s # post\<rparr>"
    by (cases "find (\<lambda>block. block_type block = ''text'') pre")
       (simp_all add: reply_json_def find_text_def find_append_split r)
  with r show ?thesis by simp
qed

theorem recovery_ignores_surrounding_whitespace_witness:
  \<open>recover_json (demo (Inl (Error [])))
     ([CHR 0x0A, CHR 0x20] @ ''{"invoiceNumber":"INV-001","amountDue":"42.50"}'' @ [CHR 0x09, CHR 0xA0, CHR 0x0D])
     = JObject [(''invoiceNumber'', JString ''INV-001''), (''amountDue'', JString ''42.50'')]\<close>
proof -
  have "\<forall>c\<in>set [CHR 0x0A, CHR 0x20]. isWhiteSpace c"
    and "\<forall>c\<in>set [CHR 0x09, CHR 0xA0, CHR 0x0D]. isWhiteSpace c"
    by (simp_all add: isWhiteSpace_def)
  from recovery_ignores_surrounding_whitespace [OF this, of "demo (Inl (Error []))"]
  show ?thesis
    by (simp add: recover_json_def trim_def isWhiteSpace_def demo_def demo_JSON_parse_def)
qed

subsection \<open>Brace matching\<close>

text \<open>
  Claim C3. For every reply text, the recovery selects the substring of the trimmed
  text from its first opening brace to its last closing brace and hands exactly that
  substring to \<^verbatim>\<open>JSON.parse\<close>. From the reply of the specification, in which prose and a
  code fence surround the object, the text handed over is
  \<^verbatim>\<open>{"invoiceNumber":"INV-001","amountDue":"42.50"}\<close>, so that object is what comes back;
  of a text with two fragments in braces the whole span is the one candidate.
\<close>

theorem recovery_selects_first_to_last_brace:
  \<open>(\<forall>a m b.
       trim text = a @ CHR ''{'' # m @ CHR ''}'' # b \<and> CHR ''{'' \<notin> set a \<and> CHR ''}'' \<notin> set b
       \<longrightarrow> match_braces (trim text) = Some (CHR ''{'' # m @ ''}'')
           \<and> recover_json P text =
               (case JSON_parse P (CHR ''{'' # m @ ''}'') of
                  Inr parsed \<Rightarrow> parsed
                | Inl e \<Rightarrow> JObject []))
    \<and> recover_json P example_reply_text =
        (case JSON_parse P ''{"invoiceNumber":"INV-001","amountDue":"42.50"}'' of
           Inr parsed \<Rightarrow> parsed
         | Inl e \<Rightarrow> JObject [])
    \<and> (\<forall>obj. JSON_parse P ''{"invoiceNumber":"INV-001","amountDue":"42.50"}'' = Inr obj
         \<longrightarrow> recover_json P example_reply_text = obj)
    \<and> recover_json P two_fragments =
        (case JSON_parse P two_fragments of
           Inr parsed \<Rightarrow> parsed
         | Inl e \<Rightarrow> JObject [])\<close>
proof -
  have 1: "match_braces (trim text) = Some (CHR ''{'' # m @ ''}'')
           \<and> recover_json P text =
               (case JSON_parse P (CHR ''{'' # m @ ''}'') of
                  Inr parsed \<Rightarrow> parsed
                | Inl e \<Rightarrow> JObject [])"
    if "trim text = a @ CHR ''{'' # m @ CHR ''}'' # b" and "CHR ''{'' \<notin> set a"
      and "CHR ''}'' \<notin> set b"
    for a m b
    using that by (simp add: recover_json_span match_braces_span)
  have 2: \<open>recover_json P example_reply_text =
        (case JSON_parse P ''{"invoiceNumber":"INV-001","amountDue":"42.50"}'' of
           Inr parsed \<Rightarrow> parsed
         | Inl e \<Rightarrow> JObject [])\<close>
    using recover_json_span [OF trim_example_reply_text, of P] by simp
  have 3: "recover_json P two_fragments =
        (case JSON_parse P two_fragments of
           Inr parsed \<Rightarrow> parsed
         | Inl e \<Rightarrow> JObject [])"
    using recover_json_span [OF trim_two_fragments, of P] by (simp add: two_fragments_def)
  from 1 2 3 show ?thesis by simp
qed

theorem recovery_selects_first_to_last_brace_witness:
  \<open>match_braces (trim ''Sure: {"invoiceNumber":"INV-001","amountDue":"42.50"} (from page 1)  '')
     = Some ''{"invoiceNumber":"INV-001","amountDue":"42.50"}''
   \<and> recover_json (demo (Inl (Error []))) example_reply_text
     = JObject [(''invoiceNumber'', JString ''INV-001''), (''amountDue'', JString ''42.50'')]\<close>
proof -
  let ?P = "demo (Inl (Error []))"
  let ?text = \<open>''Sure: {"invoiceNumber":"INV-001","amountDue":"42.50"} (from page 1)  ''\<close>
  note T = recovery_selects_first_to_last_brace [of _ ?P]
  have \<open>trim ?text = ''Sure: '' @ CHR ''{'' # ''"invoiceNumber":"INV-001","amountDue":"42.50"''
            @ CHR ''}'' # '' (from page 1)''
        \<and> CHR ''{'' \<notin> set ''Sure: '' \<and> CHR ''}'' \<notin> set '' (from page 1)''\<close>
    by (simp add: trim_def isWhiteSpace_def)
  with T [of ?text]
  have a: \<open>match_braces (trim ?text) = Some (CHR ''{'' # ''"invoiceNumber":"INV-001","amountDue":"42.50"'' @ ''}'')\<close>
    by blast
  have \<open>JSON_parse ?P ''{"invoiceNumber":"INV-001","amountDue":"42.50"}''
        = Inr (JObject [(''invoiceNumber'', JString ''INV-001''), (''amountDue'', JString ''42.50'')])\<close>
    by (simp add: demo_def demo_JSON_parse_def)
  with T [of ?text]
  have b: "recover_json ?P example_reply_text
     = JObject [(''invoiceNumber'', JString ''INV-001''), (''amountDue'', JString ''42.50'')]"
    by blast
  from a b show ?thesis by simp
qed

subsection \<open>The parsed object is passed through\<close>

text \<open>
  Claim C5. Whenever the text matched in the first text block of the reply parses,
  \<open>extractStructuredData\<close> returns the parsed value itself, whatever the requested field
  names are: no key is filtered out and none is added.
\<close>

theorem extractStructuredData_returns_parsed_as_is:
  assumes "fetchFileAsBase64 P filePath = Inr r"
    and "messages_create P (extractStructuredData_request r fieldNames) = Inr response"
    and "content response = pre @ TextBlock t # post"
    and "\<forall>b\<in>set pre. block_type b \<noteq> ''text''"
    and "match_braces (trim t) = Some jsonMatch"
    and "JSON_parse P jsonMatch = Inr parsed"
  shows "extractStructuredData P filePath fieldNames = Inr parsed"
  using extractStructuredData_reply [OF assms(1,2)] reply_json_first [OF assms(3,4), of P]
    assms(5,6)
  by (simp add: recover_json_def)

theorem extractStructuredData_returns_parsed_as_is_witness:
  "extractStructuredData (demo (Inr \<lparr>content = [ThinkingBlock ''reading'', TextBlock example_reply_text]\<rparr>))
     ''photo'' [''invoiceNumber'', ''dueDate'']
   = Inr (JObject [(''invoiceNumber'', JString ''INV-001''), (''amountDue'', JString ''42.50'')])"
proof -
  let ?m = "\<lparr>content = [ThinkingBlock ''reading'', TextBlock example_reply_text]\<rparr>"
  have c: "content ?m = [ThinkingBlock ''reading''] @ TextBlock example_reply_text # []"
    by simp
  have n: "\<forall>b\<in>set [ThinkingBlock ''reading'']. block_type b \<noteq> ''text''"
    by simp
  have p: \<open>JSON_parse (demo (Inr ?m)) ''{"invoiceNumber":"INV-001","amountDue":"42.50"}''
        = Inr (JObject [(''invoiceNumber'', JString ''INV-001''), (''amountDue'', JString ''42.50'')])\<close>
    by (simp add: demo_def demo_JSON_parse_def)
  show ?thesis
    by (rule extractStructuredData_returns_parsed_as_is
          [OF demo_fetch_photo demo_messages_create c n match_example_reply_text p])
qed


subsection \<open>The block that carries the resource\<close>

text \<open>
  Claim C6. For every fetched resource, the requests that \<open>extractText\<close> and
  \<open>extractStructuredData\<close> of \<^verbatim>\<open>src/extractText.ts\<close> hand to the model client hold, before
  the instruction, one block that is a \<^verbatim>\<open>document\<close> block exactly when the media type of
  the resource is \<^verbatim>\<open>application/pdf\<close> and an \<^verbatim>\<open>image\<close> block otherwise; its media type and
  its data are those of the resource.
\<close>

theorem media_block_follows_media_type:
  "(\<exists>src instruction.
      messages (extractText_request r) =
        [\<lparr>role = ''user'',
          param_content =
            [if mediaType r = ''application/pdf'' then DocumentBlockParam src
             else ImageBlockParam src,
             TextBlockParam instruction]\<rparr>]
      \<and> media_type src = mediaType r \<and> source_data src = data r)
   \<and> (\<exists>src instruction.
      messages (extractStructuredData_request r fieldNames) =
        [\<lparr>role = ''user'',
          param_content =
            [if mediaType r = ''application/pdf'' then DocumentBlockParam src
             else ImageBlockParam src,
             TextBlockParam instruction]\<rparr>]
      \<and> media_type src = mediaType r \<and> source_data src = data r)
   \<and> (fetchFileAsBase64 P filePath = Inr r \<longrightarrow>
        extractText P filePath =
          (case messages_create P (extractText_request r) of
             Inl e \<Rightarrow> Inl e
           | Inr response \<Rightarrow> Inr (reply_text response))
        \<and> extractStructuredData P filePath fieldNames =
          (case messages_create P (extractStructuredData_request r fieldNames) of
             Inl e \<Rightarrow> Inl e
           | Inr response \<Rightarrow> Inr (reply_json P response)))"
proof -
  let ?src = "\<lparr>source_type = ''base64'', media_type = mediaType r, source_data = data r\<rparr>"
  have 1: "messages (extractText_request r) =
        [\<lparr>role = ''user'',
          param_content =
            [if mediaType r = ''application/pdf'' then DocumentBlockParam ?src
             else ImageBlockParam ?src,
             TextBlockParam
               ''Please extract all text from this document and return it in markdown format.'']\<rparr>]
      \<and> media_type ?src = mediaType r \<and> source_data ?src = data r"
    by (simp add: extractText_request_def media_block_def)
  have 2: "messages (extractStructuredData_request r fieldNames) =
        [\<lparr>role = ''user'',
          param_content =
            [if mediaType r = ''application/pdf'' then DocumentBlockParam ?src
             else ImageBlockParam ?src,
             TextBlockParam (structured_prompt ''document'' (fieldsDescription fieldNames))]\<rparr>]
      \<and> media_type ?src = mediaType r \<and> source_data ?src = data r"
    by (simp add: extractStructuredData_request_def media_block_def)
  have 3: "fetchFileAsBase64 P filePath = Inr r \<longrightarrow>
        extractText P filePath =
          (case messages_create P (extractText_request r) of
             Inl e \<Rightarrow> Inl e
           | Inr response \<Rightarrow> Inr (reply_text response))
        \<and> extractStructuredData P filePath fieldNames =
          (case messages_create P (extractStructuredData_request r fieldNames) of
             Inl e \<Rightarrow> Inl e
           | Inr response \<Rightarrow> Inr (reply_json P response))"
    by (simp add: extractText_def extractStructuredData_def)
  from 1 have e1: "\<exists>src instruction.
      messages (extractText_request r) =
        [\<lparr>role = ''user'',
          param_content =
            [if mediaType r = ''application/pdf'' then DocumentBlockParam src
             else ImageBlockParam src,
             TextBlockParam instruction]\<rparr>]
      \<and> media_type src = mediaType r \<and> source_data src = data r"
    by blast
  from 2 have e2: "\<exists>src instruction.
      messages (extractStructuredData_request r fieldNames) =
        [\<lparr>role = ''user'',
          param_content =
            [if mediaType r = ''application/pdf'' then DocumentBlockParam src
             else ImageBlockParam src,
             TextBlockParam instruction]\<rparr>]
      \<and> media_type src = mediaType r \<and> source_data src = data r"
    by blast
  from e1 e2 3 show ?thesis by blast
qed

theorem media_block_follows_media_type_witness:
  "extractText (demo (Inr \<lparr>content = [TextBlock ''TOLL INVOICE'']\<rparr>)) ''/tmp/scan.PDF''
     = Inr ''TOLL INVOICE''
   \<and> map param_type
       (param_content (hd (messages (extractText_request
          \<lparr>data = ''JVBE'', mediaType = ''application/pdf''\<rparr>))))
     = [''document'', ''text'']
   \<and> map param_type
       (param_content (hd (messages (extractStructuredData_request
          \<lparr>data = ''/9g='', mediaType = ''image/jpeg''\<rparr> default_fields))))
     = [''image'', ''text'']"
proof -
  let ?P = "demo (Inr \<lparr>content = [TextBlock ''TOLL INVOICE'']\<rparr>)"
  let ?r = "\<lparr>data = ''JVBE'', mediaType = ''application/pdf''\<rparr>"
  let ?r' = "\<lparr>data = ''/9g='', mediaType = ''image/jpeg''\<rparr>"
  have f: "fetchFileAsBase64 ?P ''/tmp/scan.PDF'' = Inr ?r"
    by (rule demo_fetch_scan)
  from media_block_follows_media_type [of ?r default_fields ?P "''/tmp/scan.PDF''"] f
  have a: "extractText ?P ''/tmp/scan.PDF'' = Inr ''TOLL INVOICE''"
    by (simp add: demo_messages_create reply_text_def find_text_def)
  from media_block_follows_media_type [of ?r default_fields ?P "''/tmp/scan.PDF''"]
  have b: "map param_type (param_content (hd (messages (extractText_request ?r))))
     = [''document'', ''text'']"
    by auto
  from media_block_follows_media_type [of ?r' default_fields ?P "''/tmp/scan.PDF''"]
  have c: "map param_type (param_content (hd (messages (extractStructuredData_request ?r' default_fields))))
     = [''image'', ''text'']"
    by auto
  from a b c show ?thesis by simp
qed


subsection \<open>Media type of a remote resource\<close>

text \<open>
  Claim C7, as stated: the media type of a remote fetch is the value of the
  \<^verbatim>\<open>Content-Type\<close> header up to its first semicolon. It fails for a header that is
  present and empty: the operator \<^verbatim>\<open>||\<close> replaces the empty value by the default, so the
  media type is \<^verbatim>\<open>image/jpeg\<close> and not the empty string.
\<close>

theorem remote_empty_content_type_counterexample:
  "\<not> existsSync (demo (Inl (Error []))) ''https://example.com/empty''
   \<and> https_get (demo (Inl (Error []))) ''https://example.com/empty'' = Inr demo_response_empty
   \<and> headers demo_response_empty ''content-type'' = Some []
   \<and> fetchFileAsBase64 (demo (Inl (Error []))) ''https://example.com/empty''
       = Inr \<lparr>data = ''TWFu'', mediaType = ''image/jpeg''\<rparr>
   \<and> takeWhile (\<lambda>c. c \<noteq> CHR '';'') [] \<noteq> ''image/jpeg''"
  by (simp add: fetchFileAsBase64_def demo_def demo_response_empty_def remote_mediaType_def
      split_semicolon_0_def base64_digit_def base64_alphabet_def)

text \<open>
  Claim C7, amended. For every identifier that is not an existing local path and whose
  request is answered, the media type is the value of the \<^verbatim>\<open>Content-Type\<close> header up to
  its first semicolon when the header is present and not empty, and \<^verbatim>\<open>image/jpeg\<close> when
  the header is absent or empty.
\<close>

theorem remote_media_type_from_content_type:
  assumes "\<not> existsSync P url" and "https_get P url = Inr response"
  shows "fetchFileAsBase64 P url =
           Inr \<lparr>data = toBase64 (concat (chunks response)),
                mediaType =
                  (case headers response ''content-type'' of
                     None \<Rightarrow> ''image/jpeg''
                   | Some v \<Rightarrow>
                       if v = [] then ''image/jpeg'' else takeWhile (\<lambda>c. c \<noteq> CHR '';'') v)\<rparr>"
  using assms
  by (simp add: fetchFileAsBase64_def remote_mediaType_def split_semicolon_0_def
      split: option.splits)

theorem remote_media_type_from_content_type_witness:
  "fetchFileAsBase64 (demo (Inl (Error []))) ''https://example.com/doc''
   = Inr \<lparr>data = ''JVBE'', mediaType = ''application/pdf''\<rparr>"
proof -
  let ?P = "demo (Inl (Error []))"
  have a: "\<not> existsSync ?P ''https://example.com/doc''"
    by (simp add: demo_def)
  have b: "https_get ?P ''https://example.com/doc'' = Inr demo_response_pdf"
    by (simp add: demo_def)
  show ?thesis
    unfolding remote_media_type_from_content_type [OF a b]
    by (simp add: demo_response_pdf_def base64_digit_def base64_alphabet_def)
qed

subsection \<open>Field descriptions\<close>

text \<open>
  Claim C8 says that a field name outside the table is returned unchanged. The
  lookup \<^verbatim>\<open>descriptions[field]\<close> also finds what the object literal inherits, so for
  \<^verbatim>\<open>constructor\<close> the callback yields the function \<^verbatim>\<open>Object\<close>, and \<^verbatim>\<open>join\<close> writes its
  source text into the prompt in place of the name; likewise for \<^verbatim>\<open>toString\<close>. The names
  of the table and names that are not inherited behave as the claim says
  (\<open>describe_known\<close>, \<open>describe_fallback\<close>).
\<close>

theorem describe_inherited_name:
  "describe ''constructor'' = JSFunction ''Object''
   \<and> fieldsDescription [''constructor''] = ''function Object() { [native code] }''
   \<and> fieldsDescription [''licensePlate'', ''toString'', ''vin'']
     = ''License plate number or vehicle registration, function toString() { [native code] }, vin''"
  by (simp add: describe_def fieldsDescription_def get_property_def descriptions_def
      Object_prototype_def js_or_def)


subsection \<open>Media type of a local file\<close>

text \<open>
  Claim C1, as stated: for every existing local path the fetcher reports
  \<^verbatim>\<open>application/pdf\<close> for the extension \<^verbatim>\<open>.pdf\<close>. The claim names both fetchers, and it
  fails for \<open>fetchImageAsBase64\<close> of the image-only copy, which has no case for \<^verbatim>\<open>.pdf\<close>: an
  existing file \<^verbatim>\<open>/tmp/scan.PDF\<close> is reported as \<^verbatim>\<open>image/jpeg\<close>.
\<close>

theorem image_fetcher_pdf_counterexample:
  "existsSync (demo (Inl (Error []))) ''/tmp/scan.PDF''
   \<and> toLowerCase (extname ''/tmp/scan.PDF'') = ''.pdf''
   \<and> fetchImageAsBase64 (demo (Inl (Error []))) ''/tmp/scan.PDF''
       = Inr \<lparr>data = ''JVBE'', mediaType = ''image/jpeg''\<rparr>"
  by (simp add: demo_fetch_scan_dup extname_scan toLowerCase_PDF) (simp add: demo_def)

text \<open>
  Claim C1, amended. For every local path that exists and can be read,
  \<open>fetchFileAsBase64\<close> of \<^verbatim>\<open>src/extractText.ts\<close> reports the media type that the lowered
  extension alone determines: \<^verbatim>\<open>.pdf\<close> gives \<^verbatim>\<open>application/pdf\<close>, \<^verbatim>\<open>.png\<close> gives \<^verbatim>\<open>image/png\<close>,
  \<^verbatim>\<open>.gif\<close> gives \<^verbatim>\<open>image/gif\<close>, \<^verbatim>\<open>.webp\<close> gives \<^verbatim>\<open>image/webp\<close>, and any other or missing
  extension gives \<^verbatim>\<open>image/jpeg\<close>. \<open>fetchImageAsBase64\<close> of the image-only copy does the same
  without the case for \<^verbatim>\<open>.pdf\<close>. Neither looks at the content: another platform with
  other bytes at the same path gets the same media type.
\<close>

theorem local_media_type_from_extension:
  assumes "existsSync P path" and "readFileSync P path = Inr buffer"
  shows "fetchFileAsBase64 P path =
           Inr \<lparr>data = toBase64 buffer,
                mediaType =
                  (let ext = toLowerCase (extname path)
                   in if ext = ''.pdf'' then ''application/pdf''
                      else if ext = ''.png'' then ''image/png''
                      else if ext = ''.gif'' then ''image/gif''
                      else if ext = ''.webp'' then ''image/webp''
                      else ''image/jpeg'')\<rparr>
     \<and> fetchImageAsBase64 P path =
           Inr \<lparr>data = toBase64 buffer,
                mediaType =
                  (let ext = toLowerCase (extname path)
                   in if ext = ''.png'' then ''image/png''
                      else if ext = ''.gif'' then ''image/gif''
                      else if ext = ''.webp'' then ''image/webp''
                      else ''image/jpeg'')\<rparr>
     \<and> (\<forall>P' buffer'.
          existsSync P' path \<and> readFileSync P' path = Inr buffer'
          \<longrightarrow> map_sum id mediaType (fetchFileAsBase64 P' path)
              = map_sum id mediaType (fetchFileAsBase64 P path)
            \<and> map_sum id mediaType (fetchImageAsBase64 P' path)
              = map_sum id mediaType (fetchImageAsBase64 P path))"
  using assms by (simp add: fetchFileAsBase64_def fetchImageAsBase64_def Let_def)

theorem local_media_type_from_extension_witness:
  "fetchFileAsBase64 (demo (Inl (Error []))) ''/tmp/scan.PDF''
     = Inr \<lparr>data = ''JVBE'', mediaType = ''application/pdf''\<rparr>
   \<and> fetchFileAsBase64 (demo (Inl (Error []))) ''photo''
     = Inr \<lparr>data = ''/9g='', mediaType = ''image/jpeg''\<rparr>"
proof -
  let ?P = "demo (Inl (Error []))"
  have e1: "existsSync ?P ''/tmp/scan.PDF''" and r1: "readFileSync ?P ''/tmp/scan.PDF'' = Inr [0x25, 0x50, 0x44]"
    by (simp_all add: demo_def)
  have e2: "existsSync ?P ''photo''" and r2: "readFileSync ?P ''photo'' = Inr [0xFF, 0xD8]"
    by (simp_all add: demo_def)
  have x: "toLowerCase (extname ''photo'') = []"
    by (simp add: extname_def toLowerCase_def)
  from local_media_type_from_extension [OF e1 r1, THEN conjunct1]
  have a: "fetchFileAsBase64 ?P ''/tmp/scan.PDF'' = Inr \<lparr>data = ''JVBE'', mediaType = ''application/pdf''\<rparr>"
    by (simp add: extname_scan toLowerCase_PDF base64_digit_def base64_alphabet_def)
  from local_media_type_from_extension [OF e2 r2, THEN conjunct1]
  have b: "fetchFileAsBase64 ?P ''photo'' = Inr \<lparr>data = ''/9g='', mediaType = ''image/jpeg''\<rparr>"
    by (simp add: x base64_digit_def base64_alphabet_def)
  from a b show ?thesis by simp
qed

subsection \<open>The two copies compared\<close>

text \<open>
  Claim C2, as stated: the two copies produce the same resource for every identifier.
  They do not: for the existing file \<^verbatim>\<open>/tmp/scan.PDF\<close> the media types differ.
\<close>

theorem copies_differ_on_pdf_counterexample:
  "fetchFileAsBase64 (demo (Inl (Error []))) ''/tmp/scan.PDF''
   \<noteq> fetchImageAsBase64 (demo (Inl (Error []))) ''/tmp/scan.PDF''"
  by (simp add: demo_fetch_scan demo_fetch_scan_dup)

text \<open>
  Claim C2, amended. For every identifier the two fetchers fail with the same error or
  produce the same data, and they produce the same resource unless the identifier is an
  existing local path whose lowered extension is \<^verbatim>\<open>.pdf\<close>; there \<open>fetchFileAsBase64\<close>
  reports \<^verbatim>\<open>application/pdf\<close> and \<open>fetchImageAsBase64\<close> reports \<^verbatim>\<open>image/jpeg\<close>. With a
  model client whose outcome is fixed, both copies of \<open>extractText\<close> return the same
  string and both copies of \<open>extractStructuredData\<close> the same value, for every identifier
  and field list.
\<close>

theorem copies_agree_except_pdf:
  "map_sum id data (fetchFileAsBase64 P ident)
     = map_sum id data (fetchImageAsBase64 P ident)
   \<and> (\<not> (existsSync P ident \<and> toLowerCase (extname ident) = ''.pdf'')
      \<longrightarrow> fetchFileAsBase64 P ident = fetchImageAsBase64 P ident)
   \<and> (\<forall>buffer.
        existsSync P ident \<and> toLowerCase (extname ident) = ''.pdf''
        \<and> readFileSync P ident = Inr buffer
        \<longrightarrow> fetchFileAsBase64 P ident
              = Inr \<lparr>data = toBase64 buffer, mediaType = ''application/pdf''\<rparr>
          \<and> fetchImageAsBase64 P ident
              = Inr \<lparr>data = toBase64 buffer, mediaType = ''image/jpeg''\<rparr>)
   \<and> ((\<forall>req. messages_create P req = reply)
      \<longrightarrow> extractText P ident = extractText_dup P ident
        \<and> extractStructuredData P ident fieldNames
          = extractStructuredData_dup P ident fieldNames)"
proof -
  have 3: "fetchFileAsBase64 P ident
              = Inr \<lparr>data = toBase64 buffer, mediaType = ''application/pdf''\<rparr>
          \<and> fetchImageAsBase64 P ident
              = Inr \<lparr>data = toBase64 buffer, mediaType = ''image/jpeg''\<rparr>"
    if "existsSync P ident" and "toLowerCase (extname ident) = ''.pdf''"
      and "readFileSync P ident = Inr buffer"
    for buffer
    using that by (simp add: fetchFileAsBase64_def fetchImageAsBase64_def)
  have 4: "extractText P ident = extractText_dup P ident
        \<and> extractStructuredData P ident fieldNames
          = extractStructuredData_dup P ident fieldNames"
    if "\<forall>req. messages_create P req = reply"
    using fetch_same_outcome [of P ident] that
    by (auto simp add: extractText_def extractText_dup_def extractStructuredData_def
        extractStructuredData_dup_def)
  from fetch_same_data [of P ident] fetch_same_unless_pdf [of P ident] 3 4
  show ?thesis by blast
qed

theorem copies_agree_except_pdf_witness:
  "fetchFileAsBase64 (demo (Inr \<lparr>content = [TextBlock example_reply_text]\<rparr>)) ''photo''
     = fetchImageAsBase64 (demo (Inr \<lparr>content = [TextBlock example_reply_text]\<rparr>)) ''photo''
   \<and> extractText (demo (Inr \<lparr>content = [TextBlock example_reply_text]\<rparr>)) ''/tmp/scan.PDF''
     = extractText_dup (demo (Inr \<lparr>content = [TextBlock example_reply_text]\<rparr>)) ''/tmp/scan.PDF''
   \<and> extractStructuredData (demo (Inr \<lparr>content = [TextBlock example_reply_text]\<rparr>))
       ''/tmp/scan.PDF'' default_fields
     = extractStructuredData_dup (demo (Inr \<lparr>content = [TextBlock example_reply_text]\<rparr>))
         ''/tmp/scan.PDF'' default_fields
   \<and> fetchImageAsBase64 (demo (Inr \<lparr>content = [TextBlock example_reply_text]\<rparr>)) ''/tmp/scan.PDF''
     = Inr \<lparr>data = ''JVBE'', mediaType = ''image/jpeg''\<rparr>"
proof -
  let ?reply = "Inr \<lparr>content = [TextBlock example_reply_text]\<rparr> :: error + message"
  let ?P = "demo ?reply"
  have n: "\<not> (existsSync ?P ''photo'' \<and> toLowerCase (extname ''photo'') = ''.pdf'')"
    by (simp add: extname_def toLowerCase_def)
  from copies_agree_except_pdf [of ?P "''photo''" ?reply default_fields] n
  have a: "fetchFileAsBase64 ?P ''photo'' = fetchImageAsBase64 ?P ''photo''"
    by blast
  have m: "\<forall>req. messages_create ?P req = ?reply"
    by (simp add: demo_def)
  from copies_agree_except_pdf [of ?P "''/tmp/scan.PDF''" ?reply default_fields] m
  have b: "extractText ?P ''/tmp/scan.PDF'' = extractText_dup ?P ''/tmp/scan.PDF''
        \<and> extractStructuredData ?P ''/tmp/scan.PDF'' default_fields
          = extractStructuredData_dup ?P ''/tmp/scan.PDF'' default_fields"
    by blast
  have "existsSync ?P ''/tmp/scan.PDF'' \<and> toLowerCase (extname ''/tmp/scan.PDF'') = ''.pdf''
        \<and> readFileSync ?P ''/tmp/scan.PDF'' = Inr [0x25, 0x50, 0x44]"
    by (simp add: extname_scan toLowerCase_PDF) (simp add: demo_def)
  with copies_agree_except_pdf [of ?P "''/tmp/scan.PDF''" ?reply default_fields]
  have "fetchImageAsBase64 ?P ''/tmp/scan.PDF''
     = Inr \<lparr>data = toBase64 [0x25, 0x50, 0x44], mediaType = ''image/jpeg''\<rparr>"
    by blast
  then have c: "fetchImageAsBase64 ?P ''/tmp/scan.PDF''
     = Inr \<lparr>data = ''JVBE'', mediaType = ''image/jpeg''\<rparr>"
    by (simp add: base64_digit_def base64_alphabet_def)
  from a b c show ?thesis by simp
qed


end
